theory Spec2Isabelle
  imports Main "HOL-Library.AList"
begin

section \<open>JavaScript values used by the security scripts\<close>

text \<open>
  The scripts under \<open>scripts/security\<close> work on parsed JSON. A JSON value is modelled by
  the datatype below; an object is the list of its own properties in insertion order.
\<close>

datatype json = JNull | JBool bool | JNum int | JStr string
  | JArr "json list" | JObj "(string \<times> json) list"

text \<open>
  Every object the scripts index by a computed key (\<open>SECURITY_CONFIG.maxAge[severity]\<close>,
  \<open>pkg.content.dependencies[update.package]\<close>) is a plain object, so a key that is not an
  own property is still found when \<open>Object.prototype\<close> defines it. All of these inherited
  values are functions or objects: truthy, and \<open>NaN\<close> when compared as numbers.
\<close>

definition object_prototype_names :: "string list" where
  "object_prototype_names =
     [''constructor'', ''__defineGetter__'', ''__defineSetter__'', ''hasOwnProperty'',
      ''__lookupGetter__'', ''__lookupSetter__'', ''isPrototypeOf'', ''propertyIsEnumerable'',
      ''toString'', ''valueOf'', ''__proto__'', ''toLocaleString'']"

datatype 'v js_prop = Own 'v | Inherited | Undefined

definition js_get :: "(string \<times> 'v) list \<Rightarrow> string \<Rightarrow> 'v js_prop" where
  "js_get obj k =
     (case map_of obj k of
        Some v \<Rightarrow> Own v
      | None \<Rightarrow> if k \<in> set object_prototype_names then Inherited else Undefined)"

text \<open>
  \<open>obj[k] = v\<close> with a string \<open>v\<close>: an own property is overwritten in place, a new key is
  appended; the inherited \<open>__proto__\<close> setter ignores a value that is not an object.
\<close>

definition js_set :: "(string \<times> 'v) list \<Rightarrow> string \<Rightarrow> 'v \<Rightarrow> (string \<times> 'v) list" where
  "js_set obj k v =
     (if map_of obj k = None \<and> k = ''__proto__'' then obj else AList.update k v obj)"

text \<open>Truthiness of a possibly absent string, and \<open>x || d\<close> on it.\<close>

definition truthy :: "string option \<Rightarrow> bool" where
  "truthy x = (case x of None \<Rightarrow> False | Some s \<Rightarrow> s \<noteq> [])"

definition or_default :: "string option \<Rightarrow> string \<Rightarrow> string" where
  "or_default x d = (case x of None \<Rightarrow> d | Some s \<Rightarrow> if s \<noteq> [] then s else d)"

definition truthy_prop :: "string js_prop \<Rightarrow> bool" where
  "truthy_prop p = (case p of Own s \<Rightarrow> s \<noteq> [] | Inherited \<Rightarrow> True | Undefined \<Rightarrow> False)"

section \<open>Operator input and string helpers\<close>

text \<open>
  \<open>trim\<close>, \<open>toLowerCase\<close>, \<open>includes\<close>, \<open>split('\n')\<close> and \<open>replace\<close> with a string
  pattern (first occurrence only). A string is the list of the bytes of its UTF-8 encoding.
\<close>

fun starts_with :: "string \<Rightarrow> string \<Rightarrow> bool" where
  "starts_with s [] = True"
| "starts_with [] (c # m) = False"
| "starts_with (a # s) (c # m) = (a = c \<and> starts_with s m)"

text \<open>
  The characters \<open>trim\<close> removes, in UTF-8: the white space of ECMAScript (tab, vertical
  tab, form feed, space, U+00A0, U+FEFF and the space separators U+1680, U+2000 to U+200A,
  U+202F, U+205F, U+3000) and its line terminators (line feed, carriage return, U+2028,
  U+2029).
\<close>

definition white_space :: "string list" where
  "white_space =
     [[CHR 0x09], [CHR 0x0A], [CHR 0x0B], [CHR 0x0C], [CHR 0x0D], [CHR 0x20],
      [CHR 0xC2, CHR 0xA0], [CHR 0xE1, CHR 0x9A, CHR 0x80],
      [CHR 0xE2, CHR 0x80, CHR 0x80], [CHR 0xE2, CHR 0x80, CHR 0x81],
      [CHR 0xE2, CHR 0x80, CHR 0x82], [CHR 0xE2, CHR 0x80, CHR 0x83],
      [CHR 0xE2, CHR 0x80, CHR 0x84], [CHR 0xE2, CHR 0x80, CHR 0x85],
      [CHR 0xE2, CHR 0x80, CHR 0x86], [CHR 0xE2, CHR 0x80, CHR 0x87],
      [CHR 0xE2, CHR 0x80, CHR 0x88], [CHR 0xE2, CHR 0x80, CHR 0x89],
      [CHR 0xE2, CHR 0x80, CHR 0x8A], [CHR 0xE2, CHR 0x80, CHR 0xA8],
      [CHR 0xE2, CHR 0x80, CHR 0xA9], [CHR 0xE2, CHR 0x80, CHR 0xAF],
      [CHR 0xE2, CHR 0x81, CHR 0x9F], [CHR 0xE3, CHR 0x80, CHR 0x80],
      [CHR 0xEF, CHR 0xBB, CHR 0xBF]]"

text \<open>The string without the white space character it starts with, or ends with.\<close>

definition strip_start :: "string \<Rightarrow> string option" where
  "strip_start s =
     (case filter (\<lambda>ws. starts_with s ws) white_space of
        [] \<Rightarrow> None
      | ws # _ \<Rightarrow> Some (drop (length ws) s))"

definition strip_end :: "string \<Rightarrow> string option" where
  "strip_end s =
     (case filter (\<lambda>ws. starts_with (rev s) (rev ws)) white_space of
        [] \<Rightarrow> None
      | ws # _ \<Rightarrow> Some (take (length s - length ws) s))"

function trimStart :: "string \<Rightarrow> string" where
  "trimStart s = (case strip_start s of None \<Rightarrow> s | Some rest \<Rightarrow> trimStart rest)"
  by pat_completeness auto
termination
proof (relation "measure length")
  show "wf (measure length)" by simp
next
  fix s rest
  assume "strip_start s = Some rest"
  then obtain ws others where found: "filter (\<lambda>ws. starts_with s ws) white_space = ws # others"
      and rest: "rest = drop (length ws) s"
    by (auto simp: strip_start_def split: list.splits)
  have "ws \<in> set (filter (\<lambda>ws. starts_with s ws) white_space)"
    using found by simp
  then have ws: "ws \<in> set white_space" and pre: "starts_with s ws"
    by simp_all
  from ws have "ws \<noteq> []"
    by (auto simp: white_space_def)
  with pre have "s \<noteq> []"
    by (cases ws; cases s) auto
  with \<open>ws \<noteq> []\<close> rest show "(rest, s) \<in> measure length"
    by simp
qed

function trimEnd :: "string \<Rightarrow> string" where
  "trimEnd s = (case strip_end s of None \<Rightarrow> s | Some rest \<Rightarrow> trimEnd rest)"
  by pat_completeness auto
termination
proof (relation "measure length")
  show "wf (measure length)" by simp
next
  fix s rest
  assume "strip_end s = Some rest"
  then obtain ws others where
      found: "filter (\<lambda>ws. starts_with (rev s) (rev ws)) white_space = ws # others"
      and rest: "rest = take (length s - length ws) s"
    by (auto simp: strip_end_def split: list.splits)
  have "ws \<in> set (filter (\<lambda>ws. starts_with (rev s) (rev ws)) white_space)"
    using found by simp
  then have ws: "ws \<in> set white_space" and pre: "starts_with (rev s) (rev ws)"
    by simp_all
  from ws have "ws \<noteq> []"
    by (auto simp: white_space_def)
  with pre have "s \<noteq> []"
    by (cases "rev ws"; cases "rev s") auto
  with \<open>ws \<noteq> []\<close> rest show "(rest, s) \<in> measure length"
    by simp
qed

definition trim :: "string \<Rightarrow> string" where
  "trim s = trimEnd (trimStart s)"

text \<open>
  Lower case, on the letters A to Z. The scripts compare the result only with the single
  letters y, q, a, s, i and n, and no character outside ASCII has one of these as its
  lower case.
\<close>

definition lower_char :: "char \<Rightarrow> char" where
  "lower_char c =
     (case map_of (zip ''ABCDEFGHIJKLMNOPQRSTUVWXYZ'' ''abcdefghijklmnopqrstuvwxyz'') c of
        Some l \<Rightarrow> l | None \<Rightarrow> c)"

definition toLowerCase :: "string \<Rightarrow> string" where
  "toLowerCase s = map lower_char s"

fun str_includes :: "string \<Rightarrow> string \<Rightarrow> bool" where
  "str_includes [] m = (m = [])"
| "str_includes (a # s) m = (starts_with (a # s) m \<or> str_includes s m)"

fun split_lines :: "string \<Rightarrow> string list" where
  "split_lines [] = [[]]"
| "split_lines (c # cs) =
     (if c = CHR 0x0A then [] # split_lines cs
      else (case split_lines cs of l # ls \<Rightarrow> (c # l) # ls | [] \<Rightarrow> [[c]]))"

fun replace_first :: "string \<Rightarrow> string \<Rightarrow> string \<Rightarrow> string" where
  "replace_first [] pat rep = (if pat = [] then rep else [])"
| "replace_first (a # s) pat rep =
     (if starts_with (a # s) pat then rep @ drop (length pat) (a # s)
      else a # replace_first s pat rep)"

text \<open>\<open>[...new Set(xs)]\<close>: the first occurrence of each element, in order.\<close>

fun dedupe :: "'a list \<Rightarrow> 'a list" where
  "dedupe [] = []"
| "dedupe (x # xs) = x # dedupe (filter (\<lambda>y. y \<noteq> x) xs)"

text \<open>
  \<open>ask\<close> resolves with the operator's next line, trimmed and in lower case. The lines the
  operator will type are a list; when none is left the promise never resolves (\<open>None\<close>).
\<close>

definition ask :: "string list \<Rightarrow> (string \<times> string list) option" where
  "ask answers = (case answers of [] \<Rightarrow> None | a # rest \<Rightarrow> Some (toLowerCase (trim a), rest))"

section \<open>Paths\<close>

text \<open>
  \<open>path.join\<close> of two segments on a POSIX system: the non-empty arguments joined by a
  slash, then \<open>path.normalize\<close>: empty and \<open>.\<close> segments are dropped, \<open>..\<close> removes the
  segment before it (and is kept in front of a relative path that has none), a leading
  and a trailing slash are preserved, and the empty result is \<open>.\<close>.
\<close>

fun segments :: "string \<Rightarrow> string list" where
  "segments [] = [[]]"
| "segments (c # cs) =
     (if c = CHR ''/'' then [] # segments cs
      else (case segments cs of l # ls \<Rightarrow> (c # l) # ls | [] \<Rightarrow> [[c]]))"

fun normalize_segments :: "bool \<Rightarrow> string list \<Rightarrow> string list \<Rightarrow> string list" where
  "normalize_segments allowAboveRoot [] res = rev res"
| "normalize_segments allowAboveRoot (seg # segs) res =
     (if seg = [] \<or> seg = ''.'' then normalize_segments allowAboveRoot segs res
      else if seg = ''..'' then
        (case res of
           [] \<Rightarrow> if allowAboveRoot then normalize_segments allowAboveRoot segs [seg]
                 else normalize_segments allowAboveRoot segs []
         | prev # below \<Rightarrow>
             if prev \<noteq> ''..'' then normalize_segments allowAboveRoot segs below
             else if allowAboveRoot then normalize_segments allowAboveRoot segs (seg # res)
             else normalize_segments allowAboveRoot segs res)
      else normalize_segments allowAboveRoot segs (seg # res))"

fun join_segments :: "string list \<Rightarrow> string" where
  "join_segments [] = []"
| "join_segments [x] = x"
| "join_segments (x # y # zs) = x @ ''/'' @ join_segments (y # zs)"

definition path_normalize :: "string \<Rightarrow> string" where
  "path_normalize p =
     (case p of
        [] \<Rightarrow> ''.''
      | c # cs \<Rightarrow>
          (let isAbsolute = (c = CHR ''/'');
               trailingSeparator = (last p = CHR ''/'');
               body = join_segments (normalize_segments (\<not> isAbsolute) (segments p) [])
           in if body = [] then (if isAbsolute then ''/'' else if trailingSeparator then ''./'' else ''.'')
              else (if isAbsolute then ''/'' else []) @ body
                   @ (if trailingSeparator then ''/'' else [])))"

definition path_join :: "string \<Rightarrow> string \<Rightarrow> string" where
  "path_join a b =
     (if a = [] \<and> b = [] then ''.''
      else if a = [] then path_normalize b
      else if b = [] then path_normalize a
      else path_normalize (a @ ''/'' @ b))"

section \<open>dependency-manager.mjs: configuration\<close>

record security_config =
  maxAge :: "(string \<times> int) list"
  autoUpdateLevels :: "string list"
  excludePackages :: "string list"
  trustedSources :: "string list"

definition SECURITY_CONFIG :: security_config where
  "SECURITY_CONFIG =
     \<lparr> maxAge = [(''critical'', 7), (''high'', 30), (''moderate'', 90), (''low'', 365)],
       autoUpdateLevels = [''critical'', ''high''],
       excludePackages = [],
       trustedSources = [''npm'', ''github''] \<rparr>"

section \<open>dependency-manager.mjs: analyzeVulnerability and calculateSecurityScore\<close>

text \<open>
  One entry of the \<open>vulnerabilities\<close> object of an audit report. The fields read by the
  script are strings when present. \<open>created\<close> is what \<open>new Date(vulnData.created)\<close> makes of
  the field: absent (falsy), present but not a date (\<open>getTime()\<close> is \<open>NaN\<close>), or a time in
  milliseconds.
\<close>

datatype created_field = NoCreated | BadCreated | Created int

record vuln_data =
  vd_id :: "string option"
  vd_severity :: "string option"
  vd_created :: created_field
  vd_title :: "string option"
  vd_module_name :: "string option"
  vd_vulnerable_versions :: "string option"
  vd_patched_versions :: "string option"
  vd_url :: "string option"
  vd_via :: "string option"

record analysis =
  a_id :: "string option"
  a_severity :: string
  a_ageInDays :: "int option"
  a_maxAge :: "int js_prop"
  a_isStale :: bool
  a_shouldAutoUpdate :: bool
  a_title :: string
  a_module :: string
  a_versions :: string
  a_patched :: string
  a_url :: "string option"

text \<open>
  \<open>Math.floor((Date.now() - publishedDate.getTime()) / (1000 * 60 * 60 * 24))\<close>, with
  \<open>now\<close> the value of \<open>Date.now()\<close>; \<open>None\<close> is \<open>NaN\<close>. Without a \<open>created\<close> field the
  published date is the current time. Times are whole milliseconds, and the floor of the
  quotient is the integer quotient \<open>div\<close>, which rounds towards minus infinity as
  \<open>Math.floor\<close> does.
\<close>

definition ageInDays_of :: "int \<Rightarrow> created_field \<Rightarrow> int option" where
  "ageInDays_of now c =
     (case c of
        NoCreated \<Rightarrow> Some ((now - now) div (1000 * 60 * 60 * 24))
      | BadCreated \<Rightarrow> None
      | Created t \<Rightarrow> Some ((now - t) div (1000 * 60 * 60 * 24)))"

text \<open>\<open>SECURITY_CONFIG.maxAge[severity] || SECURITY_CONFIG.maxAge.low\<close>\<close>

definition maxAge_for :: "security_config \<Rightarrow> string \<Rightarrow> int js_prop" where
  "maxAge_for cfg sev =
     (case js_get (maxAge cfg) sev of
        Own n \<Rightarrow> if n \<noteq> 0 then Own n else js_get (maxAge cfg) ''low''
      | Inherited \<Rightarrow> Inherited
      | Undefined \<Rightarrow> js_get (maxAge cfg) ''low'')"

text \<open>\<open>ageInDays > maxAge\<close>: false as soon as one side is not a number.\<close>

definition js_gt :: "int option \<Rightarrow> int js_prop \<Rightarrow> bool" where
  "js_gt a m = (case (a, m) of (Some x, Own y) \<Rightarrow> x > y | _ \<Rightarrow> False)"

definition analyzeVulnerability ::
  "security_config \<Rightarrow> int \<Rightarrow> string option \<Rightarrow> vuln_data \<Rightarrow> analysis" where
  "analyzeVulnerability cfg now vulnId vulnData =
     (let severity = or_default (vd_severity vulnData) ''unknown'';
          ageInDays = ageInDays_of now (vd_created vulnData);
          maxAge = maxAge_for cfg severity;
          isStale = js_gt ageInDays maxAge;
          shouldAutoUpdate = (severity \<in> set (autoUpdateLevels cfg))
      in \<lparr> a_id = vulnId,
           a_severity = severity,
           a_ageInDays = ageInDays,
           a_maxAge = maxAge,
           a_isStale = isStale,
           a_shouldAutoUpdate = shouldAutoUpdate,
           a_title = or_default (vd_title vulnData) ''Unknown vulnerability'',
           a_module = or_default (vd_module_name vulnData) ''unknown'',
           a_versions = or_default (vd_vulnerable_versions vulnData) ''unknown'',
           a_patched = or_default (vd_patched_versions vulnData) ''none'',
           a_url = (if truthy (vd_url vulnData) then vd_url vulnData else None) \<rparr>)"

text \<open>The \<open>switch (analysis.severity)\<close> of calculateSecurityScore.\<close>

definition severity_deduction :: "string \<Rightarrow> int" where
  "severity_deduction sev =
     (if sev = ''critical'' then 25
      else if sev = ''high'' then 15
      else if sev = ''moderate'' then 8
      else if sev = ''low'' then 3
      else 0)"

text \<open>The body of the \<open>forEach\<close>: one vulnerability, the running score before and after.\<close>

definition score_vuln :: "security_config \<Rightarrow> int \<Rightarrow> vuln_data \<Rightarrow> int \<Rightarrow> int" where
  "score_vuln cfg now vuln score =
     (let analysis = analyzeVulnerability cfg now (vd_id vuln) vuln;
          score1 = score - severity_deduction (a_severity analysis)
      in if a_isStale analysis then score1 - 10 else score1)"

record outdated_info =
  o_current :: "string option"
  o_wanted :: "string option"
  o_latest :: "string option"

text \<open>
  \<open>vulns\<close> and \<open>outdated\<close> are objects keyed by package name. The score stays an integer, so
  \<open>Math.round\<close> leaves it as it is.
\<close>

definition calculateSecurityScore ::
  "security_config \<Rightarrow> int \<Rightarrow> (string \<times> vuln_data) list \<Rightarrow> (string \<times> outdated_info) list \<Rightarrow> int" where
  "calculateSecurityScore cfg now vulns outdated =
     (let score = fold (score_vuln cfg now) (map snd vulns) 100;
          outdatedCount = int (length (map fst outdated));
          score2 = score - min (outdatedCount * 2) 30
      in max 0 score2)"

section \<open>dependency-manager.mjs: the Command Runner and the manifest files\<close>

text \<open>
  What \<open>execSync\<close> does with a command: it returns the standard output when the process
  exits with status 0, and throws otherwise, either because the process exited with another
  status (the error then carries the status, the standard output and a message) or because
  it could not be run at all.
\<close>

datatype exec_outcome =
    ExitZero string
  | ExitNonZero nat string string
  | LaunchFailed string

record exec_result =
  er_success :: bool
  er_output :: "string option"
  er_error :: "string option"

definition execCommand :: "exec_outcome \<Rightarrow> exec_result" where
  "execCommand outcome =
     (case outcome of
        ExitZero result \<Rightarrow> \<lparr> er_success = True, er_output = Some result, er_error = None \<rparr>
      | ExitNonZero status out message \<Rightarrow> \<lparr> er_success = False, er_output = None, er_error = Some message \<rparr>
      | LaunchFailed message \<Rightarrow> \<lparr> er_success = False, er_output = None, er_error = Some message \<rparr>)"

text \<open>Reading a property of a parsed value, and truthiness of the result.\<close>

definition member :: "json \<Rightarrow> string \<Rightarrow> json option" where
  "member j k = (case j of JObj kvs \<Rightarrow> map_of kvs k | _ \<Rightarrow> None)"

definition json_truthy :: "json \<Rightarrow> bool" where
  "json_truthy j =
     (case j of JNull \<Rightarrow> False | JBool b \<Rightarrow> b | JNum n \<Rightarrow> n \<noteq> 0 | JStr s \<Rightarrow> s \<noteq> []
      | JArr _ \<Rightarrow> True | JObj _ \<Rightarrow> True)"

definition json_or :: "json option \<Rightarrow> json \<Rightarrow> json" where
  "json_or x d = (case x of None \<Rightarrow> d | Some j \<Rightarrow> if json_truthy j then j else d)"

definition show_null :: "string option \<Rightarrow> string" where
  "show_null x = (case x of None \<Rightarrow> ''null'' | Some s \<Rightarrow> s)"

record scan_result =
  vulnerabilities :: json
  summary :: json
  auditLevel :: "json option"

definition empty_scan :: scan_result where
  "empty_scan = \<lparr> vulnerabilities = JArr [], summary = JNull, auditLevel = None \<rparr>"

text \<open>
  scanVulnerabilities, given \<open>JSON.parse\<close> (\<open>None\<close>: it throws) and what
  \<open>execSync('npm audit --json', { cwd: packageDir })\<close> did. The result comes with the
  warnings printed. Reading a property of \<open>null\<close> throws inside the \<open>try\<close>.
\<close>

definition scanVulnerabilities ::
  "(string \<Rightarrow> json option) \<Rightarrow> string \<Rightarrow> exec_outcome \<Rightarrow> scan_result \<times> string list" where
  "scanVulnerabilities parse packageDir outcome =
     (let result = execCommand outcome in
      if \<not> er_success result then
        (empty_scan,
         [''npm audit failed in '' @ packageDir @ '': '' @ show_null (er_error result)])
      else
        (case (case er_output result of None \<Rightarrow> Some JNull | Some text \<Rightarrow> parse text) of
           None \<Rightarrow> (empty_scan, [''Failed to parse audit results for '' @ packageDir])
         | Some JNull \<Rightarrow> (empty_scan, [''Failed to parse audit results for '' @ packageDir])
         | Some auditData \<Rightarrow>
             (\<lparr> vulnerabilities = json_or (member auditData ''vulnerabilities'') (JObj []),
                summary = json_or (member auditData ''metadata'') JNull,
                auditLevel = Some (json_or (member auditData ''auditReportVersion'') (JNum 1)) \<rparr>,
              [])))"

text \<open>
  A package.json as the scripts use it: the two dependency objects, when present, and the
  other properties. A file holds the value that \<open>JSON.parse\<close> reads back from it.
\<close>

record manifest =
  dependencies :: "(string \<times> string) list option"
  devDependencies :: "(string \<times> string) list option"
  other :: "(string \<times> json) list"

text \<open>
  The part of the machine that the update functions act on: the package.json files by path
  (\<open>None\<close>: missing or unreadable), the \<open>fs.writeFileSync\<close> calls made on them, the
  commands handed to \<open>execSync\<close> with their working directory, and \<open>testLog\<close>.
\<close>

record world =
  files :: "string \<Rightarrow> manifest option"
  writes :: "(string \<times> manifest) list"
  commands :: "(string \<times> string) list"
  testLog :: "string list"

text \<open>
  The command-line flags, and what the surroundings answer: whether writing a path throws,
  and the outcome of a command in a directory.
\<close>

record env =
  isDryRun :: bool
  isAutoUpdate :: bool
  isForceUpdate :: bool
  write_throws :: "string \<Rightarrow> bool"
  run :: "string \<Rightarrow> string \<Rightarrow> exec_outcome"

definition getPackageJson :: "world \<Rightarrow> string \<Rightarrow> manifest option" where
  "getPackageJson w filePath = files w filePath"

definition writePackageJson :: "env \<Rightarrow> string \<Rightarrow> manifest \<Rightarrow> world \<Rightarrow> bool \<times> world" where
  "writePackageJson e filePath content w =
     (if isDryRun e then
        (True, w\<lparr> testLog := testLog w @ [''[DRY] Would update: '' @ filePath] \<rparr>)
      else if write_throws e filePath then (False, w)
      else (True, w\<lparr> files := (files w)(filePath := Some content),
                      writes := writes w @ [(filePath, content)] \<rparr>))"

text \<open>\<open>path.join(packageDir, 'package.json')\<close>\<close>

definition package_json_path :: "string \<Rightarrow> string" where
  "package_json_path packageDir = path_join packageDir ''package.json''"

section \<open>dependency-manager.mjs: the update plan and its application\<close>

datatype update_type = Security | Outdated

record update =
  u_type :: update_type
  u_package :: string
  u_severity :: "string option"
  u_current :: "string option"
  u_patched :: "string option"
  u_wanted :: "string option"
  u_latest :: "string option"
  u_reason :: string

datatype update_mode = Auto | Force | Interactive

definition show_opt :: "string option \<Rightarrow> string" where
  "show_opt x = (case x of None \<Rightarrow> ''undefined'' | Some s \<Rightarrow> s)"

text \<open>The first loop of updateDependencies: one vulnerability, the entries it pushes.\<close>

definition security_update ::
  "security_config \<Rightarrow> int \<Rightarrow> update_mode \<Rightarrow> string \<times> vuln_data \<Rightarrow> update list" where
  "security_update cfg now mode entry =
     (let vulnId = fst entry; vulnData = snd entry;
          analysis = analyzeVulnerability cfg now (Some vulnId) vulnData
      in if mode = Auto \<and> \<not> a_shouldAutoUpdate analysis then []
         else if a_module analysis \<in> set (excludePackages cfg) then []
         else [\<lparr> u_type = Security,
                 u_package = a_module analysis,
                 u_severity = Some (a_severity analysis),
                 u_current = Some (or_default (vd_via vulnData) ''unknown''),
                 u_patched = Some (a_patched analysis),
                 u_wanted = None,
                 u_latest = None,
                 u_reason = a_severity analysis @ '' vulnerability: '' @ a_title analysis \<rparr>])"

text \<open>The second loop: one outdated package.\<close>

definition outdated_update :: "update_mode \<Rightarrow> string \<times> outdated_info \<Rightarrow> update list" where
  "outdated_update mode entry =
     (let packageName = fst entry; packageInfo = snd entry
      in if mode = Auto then []
         else [\<lparr> u_type = Outdated,
                 u_package = packageName,
                 u_severity = None,
                 u_current = o_current packageInfo,
                 u_patched = None,
                 u_wanted = o_wanted packageInfo,
                 u_latest = o_latest packageInfo,
                 u_reason = ''Outdated package (current: '' @ show_opt (o_current packageInfo)
                    @ '', latest: '' @ show_opt (o_latest packageInfo) @ '')'' \<rparr>])"

definition build_updates ::
  "security_config \<Rightarrow> int \<Rightarrow> update_mode \<Rightarrow> (string \<times> vuln_data) list
     \<Rightarrow> (string \<times> outdated_info) list \<Rightarrow> update list" where
  "build_updates cfg now mode vulns outdated =
     concat (map (security_update cfg now mode) vulns) @ concat (map (outdated_update mode) outdated)"

text \<open>
  \<open>if (deps && deps[pkg]) { deps[pkg] = v; hasChanges = true; }\<close>: the dependency object
  afterwards, and whether the branch was taken.
\<close>

definition assign_if_listed ::
  "(string \<times> string) list option \<Rightarrow> string \<Rightarrow> string \<Rightarrow> (string \<times> string) list option \<times> bool" where
  "assign_if_listed deps pkg v =
     (case deps of
        None \<Rightarrow> (None, False)
      | Some d \<Rightarrow> if truthy_prop (js_get d pkg) then (Some (js_set d pkg v), True)
                  else (Some d, False))"

definition assign_both :: "manifest \<Rightarrow> string \<Rightarrow> string \<Rightarrow> manifest \<times> bool" where
  "assign_both m pkg v =
     (let r1 = assign_if_listed (dependencies m) pkg v;
          r2 = assign_if_listed (devDependencies m) pkg v
      in (m\<lparr> dependencies := fst r1, devDependencies := fst r2 \<rparr>, snd r1 \<or> snd r2))"

text \<open>
  The body of the loop of applyUpdates, on \<open>pkg.content\<close> and \<open>hasChanges\<close>. In the
  outdated branch \<open>targetVersion\<close> is computed and the value assigned is
  \<open>`^${update.latest}`\<close>.
\<close>

definition apply_update :: "update \<Rightarrow> manifest \<times> bool \<Rightarrow> manifest \<times> bool" where
  "apply_update u st =
     (let content = fst st; hasChanges = snd st in
      if u_type u = Security \<and> truthy (u_patched u) \<and> u_patched u \<noteq> Some ''none'' then
        (let targetVersion = the (u_patched u);
             r = assign_both content (u_package u) targetVersion
         in (fst r, hasChanges \<or> snd r))
      else if u_type u = Outdated \<and> truthy (u_latest u) then
        (let targetVersion = (if truthy (u_wanted u) then the (u_wanted u) else the (u_latest u));
             r = assign_both content (u_package u) (''^'' @ the (u_latest u))
         in (fst r, hasChanges \<or> snd r))
      else (content, hasChanges))"

definition applyUpdates :: "env \<Rightarrow> string \<Rightarrow> update list \<Rightarrow> world \<Rightarrow> bool \<times> world" where
  "applyUpdates e packageDir updates w =
     (if updates = [] then (True, w)
      else
        (case getPackageJson w (package_json_path packageDir) of
           None \<Rightarrow> (False, w)
         | Some content0 \<Rightarrow>
             (let st = fold apply_update updates (content0, False) in
              if \<not> snd st then (True, w)
              else
                (let wr = writePackageJson e (package_json_path packageDir) (fst st) w in
                 if \<not> fst wr then (False, snd wr)
                 else if \<not> isDryRun e then
                   (let w2 = (snd wr)\<lparr> commands := commands (snd wr) @ [(''npm install'', packageDir)] \<rparr>;
                        installResult = execCommand (run e ''npm install'' packageDir)
                    in (er_success installResult, w2))
                 else
                   (True, (snd wr)\<lparr> testLog := testLog (snd wr)
                                       @ [''[DRY] Would run npm install in '' @ packageDir] \<rparr>)))))"

section \<open>dependency-manager.mjs: updateDependencies and the update loop of main\<close>

text \<open>
  The result of an update function that may wait for the operator: what it returned
  (\<open>None\<close>: it never returned), the world it left, and the lines not yet read.
\<close>

type_synonym update_result = "bool option \<times> world \<times> string list"

definition returned :: "bool \<times> world \<Rightarrow> string list \<Rightarrow> update_result" where
  "returned r answers = (Some (fst r), snd r, answers)"

text \<open>The selection loop of interactiveUpdate: \<open>None\<close> when the operator stops answering.\<close>

fun select_updates :: "update list \<Rightarrow> string list \<Rightarrow> update list \<Rightarrow> (update list \<times> string list) option" where
  "select_updates [] answers selectedUpdates = Some (selectedUpdates, answers)"
| "select_updates (u # us) answers selectedUpdates =
     (case ask answers of
        None \<Rightarrow> None
      | Some (choice, rest) \<Rightarrow>
          if choice = ''q'' then Some (selectedUpdates, rest)
          else if choice = ''y'' then select_updates us rest (selectedUpdates @ [u])
          else select_updates us rest selectedUpdates)"

definition interactiveUpdate :: "env \<Rightarrow> string \<Rightarrow> update list \<Rightarrow> string list \<Rightarrow> world \<Rightarrow> update_result" where
  "interactiveUpdate e packageDir updates answers w =
     (case select_updates updates answers [] of
        None \<Rightarrow> (None, w, [])
      | Some (selectedUpdates, rest) \<Rightarrow>
          if selectedUpdates \<noteq> [] then returned (applyUpdates e packageDir selectedUpdates w) rest
          else (Some True, w, rest))"

definition updateDependencies ::
  "env \<Rightarrow> security_config \<Rightarrow> int \<Rightarrow> string \<Rightarrow> (string \<times> vuln_data) list
     \<Rightarrow> (string \<times> outdated_info) list \<Rightarrow> update_mode \<Rightarrow> string list \<Rightarrow> world \<Rightarrow> update_result" where
  "updateDependencies e cfg now packageDir vulns outdated mode answers w =
     (case getPackageJson w (package_json_path packageDir) of
        None \<Rightarrow> (Some False, w, answers)
      | Some pkg \<Rightarrow>
          (let updates = build_updates cfg now mode vulns outdated in
           if updates = [] then (Some True, w, answers)
           else if mode = Auto \<or> isAutoUpdate e then
             returned (applyUpdates e packageDir (filter (\<lambda>u. u_type u = Security) updates) w) answers
           else if mode = Force \<or> isForceUpdate e then
             returned (applyUpdates e packageDir updates w) answers
           else
             (case ask answers of
                None \<Rightarrow> (None, w, [])
              | Some (choice, rest) \<Rightarrow>
                  if choice = ''a'' then returned (applyUpdates e packageDir updates w) rest
                  else if choice = ''s'' then
                    returned (applyUpdates e packageDir (filter (\<lambda>u. u_type u = Security) updates) w) rest
                  else if choice = ''i'' then interactiveUpdate e packageDir updates rest w
                  else (Some True, w, rest))))"

text \<open>
  The last loop of main (run unless \<open>--scan\<close> was given): each package directory with the
  vulnerabilities and outdated packages found for it. The result says whether the loop
  came to its end.
\<close>

definition main_mode :: "env \<Rightarrow> update_mode" where
  "main_mode e = (if isAutoUpdate e then Auto else if isForceUpdate e then Force else Interactive)"

fun update_loop ::
  "env \<Rightarrow> security_config \<Rightarrow> int
     \<Rightarrow> (string \<times> (string \<times> vuln_data) list \<times> (string \<times> outdated_info) list) list
     \<Rightarrow> string list \<Rightarrow> world \<Rightarrow> bool \<times> world" where
  "update_loop e cfg now [] answers w = (True, w)"
| "update_loop e cfg now ((dir, vulns, outdated) # packages) answers w =
     (if vulns \<noteq> [] \<or> outdated \<noteq> [] then
        (case updateDependencies e cfg now dir vulns outdated (main_mode e) answers w of
           (None, w1, rest) \<Rightarrow> (False, w1)
         | (Some r, w1, rest) \<Rightarrow> update_loop e cfg now packages rest w1)
      else update_loop e cfg now packages answers w)"

text \<open>
  The version constraints a manifest holds for a package, in \<open>dependencies\<close> and in
  \<open>devDependencies\<close>.
\<close>

definition constraints :: "manifest \<Rightarrow> string \<Rightarrow> string option \<times> string option" where
  "constraints m p =
     ((case dependencies m of None \<Rightarrow> None | Some d \<Rightarrow> map_of d p),
      (case devDependencies m of None \<Rightarrow> None | Some d \<Rightarrow> map_of d p))"

section \<open>aikido-branch-manager.mjs and interactive-aikido-manager.mjs: branch listings\<close>

record branch_groups =
  allBranches :: "string list"
  aikidoBranches :: "string list"
  dependabotBranches :: "string list"
  otherSecurityBranches :: "string list"

definition security_name :: "string \<Rightarrow> bool" where
  "security_name branch =
     (str_includes branch ''aikido'' \<or> str_includes branch ''dependabot''
      \<or> str_includes branch ''security'' \<or> str_includes branch ''vulnerability'')"

text \<open>
  listSecurityBranches of aikido-branch-manager.mjs, given the output of \<open>git branch -r\<close>
  and of \<open>git branch\<close> (\<open>None\<close>: the command throws). The function returns \<open>allBranches\<close>
  and prints the three groups.
\<close>

definition listSecurityBranches :: "string option \<Rightarrow> string option \<Rightarrow> branch_groups" where
  "listSecurityBranches remoteOut localOut =
     (case (remoteOut, localOut) of
        (Some remoteBranches, Some localBranches) \<Rightarrow>
          (let securityBranches = map trim (filter security_name (split_lines remoteBranches));
               localSecurityBranches =
                 map (\<lambda>branch. replace_first (trim branch) ''* '' [])
                   (filter security_name (split_lines localBranches));
               allBranches = dedupe (securityBranches @ localSecurityBranches)
           in \<lparr> allBranches = allBranches,
                aikidoBranches = filter (\<lambda>b. str_includes b ''aikido'') allBranches,
                dependabotBranches = filter (\<lambda>b. str_includes b ''dependabot'') allBranches,
                otherSecurityBranches =
                  filter (\<lambda>b. \<not> str_includes b ''aikido'' \<and> \<not> str_includes b ''dependabot'') allBranches \<rparr>)
      | _ \<Rightarrow> \<lparr> allBranches = [], aikidoBranches = [], dependabotBranches = [],
               otherSecurityBranches = [] \<rparr>)"

record security_branch =
  sb_name :: string
  sb_type :: string
  sb_status :: string

text \<open>loadSecurityBranches of interactive-aikido-manager.mjs: the type given to a name.\<close>

definition branch_type :: "string \<Rightarrow> string" where
  "branch_type branch =
     (if str_includes branch ''aikido/'' then ''aikido''
      else if str_includes branch ''dependabot/'' then ''dependabot''
      else ''security'')"

definition loadSecurityBranches :: "string option \<Rightarrow> security_branch list" where
  "loadSecurityBranches remoteOut =
     (case remoteOut of
        None \<Rightarrow> []
      | Some out \<Rightarrow>
          (let branches =
                 map (\<lambda>branch. replace_first (trim branch) ''origin/'' [])
                   (filter (\<lambda>branch. str_includes branch ''security/'' \<or> str_includes branch ''aikido/''
                                       \<or> str_includes branch ''dependabot/'')
                      (split_lines out))
           in map (\<lambda>branch. \<lparr> sb_name = branch, sb_type = branch_type branch,
                               sb_status = ''pending'' \<rparr>) branches))"

section \<open>aikido-branch-manager.mjs: mergeAikidoBranch\<close>

text \<open>
  The repository is a value of any type \<open>'r\<close>; \<open>git\<close> says what \<open>execSync\<close> of a command
  does to it: the new repository and the output, \<open>None\<close> when the command fails and
  \<open>execSync\<close> throws. A session is the repository with the commands issued so far.
\<close>

type_synonym 'r git = "string \<Rightarrow> 'r \<Rightarrow> string option \<times> 'r"

record 'r session =
  repo :: 'r
  issued :: "string list"

definition execSync :: "'r git \<Rightarrow> string \<Rightarrow> 'r session \<Rightarrow> string option \<times> 'r session" where
  "execSync git cmd s =
     (let r = git cmd (repo s) in (fst r, \<lparr> repo = snd r, issued = issued s @ [cmd] \<rparr>))"

text \<open>getBranchDetails: three queries inside one \<open>try\<close>; the first failure ends it.\<close>

definition getBranchDetails :: "'r git \<Rightarrow> string \<Rightarrow> 'r session \<Rightarrow> 'r session" where
  "getBranchDetails git branchName s =
     (case execSync git (''git log --oneline '' @ branchName @ '' ^main | head -5'') s of
        (None, s1) \<Rightarrow> s1
      | (Some commits, s1) \<Rightarrow>
          (case execSync git (''git diff --name-only main...'' @ branchName) s1 of
             (None, s2) \<Rightarrow> s2
           | (Some changedFiles, s2) \<Rightarrow>
               snd (execSync git (''git diff --stat main...'' @ branchName) s2)))"

datatype merge_result = Returned bool | Threw | Waiting

type_synonym 'r merge_state = "merge_result \<times> 'r session \<times> string list"

definition merge_command :: "string \<Rightarrow> string" where
  "merge_command branchName = ''git merge '' @ branchName @ '' --no-ff''"

text \<open>
  mergeAikidoBranch up to the confirmation: \<open>Inl\<close> when the function ends there, \<open>Inr\<close>
  with the session and the unread lines when it goes on to the merge.
\<close>

definition before_merge ::
  "'r git \<Rightarrow> string \<Rightarrow> string list \<Rightarrow> 'r session \<Rightarrow> 'r merge_state + ('r session \<times> string list)" where
  "before_merge git branchName answers s =
     (case execSync git ''git branch --show-current'' s of
        (None, s1) \<Rightarrow> Inl (Threw, s1, answers)
      | (Some out, s1) \<Rightarrow>
          (let currentBranch = trim out;
               switched =
                 (if currentBranch \<noteq> ''main'' \<and> currentBranch \<noteq> ''develop'' then
                    (case ask answers of
                       None \<Rightarrow> Inl (Waiting, s1, [])
                     | Some (switchToMain, rest) \<Rightarrow>
                         if switchToMain = ''y'' then
                           (case execSync git ''git checkout main'' s1 of
                              (None, s2) \<Rightarrow> Inl (Returned False, s2, rest)
                            | (Some _, s2) \<Rightarrow>
                                (case execSync git ''git pull origin main'' s2 of
                                   (None, s3) \<Rightarrow> Inl (Returned False, s3, rest)
                                 | (Some _, s3) \<Rightarrow> Inr (s3, rest)))
                         else Inr (s1, rest))
                  else Inr (s1, answers))
           in case switched of
                Inl r \<Rightarrow> Inl r
              | Inr (s4, answers1) \<Rightarrow>
                  (let s5 = getBranchDetails git branchName s4 in
                   case ask answers1 of
                     None \<Rightarrow> Inl (Waiting, s5, [])
                   | Some (confirmMerge, rest) \<Rightarrow>
                       if confirmMerge \<noteq> ''y'' then Inl (Returned False, s5, rest)
                       else Inr (s5, rest))))"

text \<open>
  The final \<open>try\<close>: the merge, then the question about deleting the branch. The \<open>catch\<close>
  of a failed merge returns false and runs no command. What the function prints is not
  part of the session.
\<close>

definition merge_and_cleanup :: "'r git \<Rightarrow> string \<Rightarrow> string list \<Rightarrow> 'r session \<Rightarrow> 'r merge_state" where
  "merge_and_cleanup git branchName answers s =
     (case execSync git (merge_command branchName) s of
        (None, s1) \<Rightarrow> (Returned False, s1, answers)
      | (Some _, s1) \<Rightarrow>
          (case ask answers of
             None \<Rightarrow> (Waiting, s1, [])
           | Some (deleteBranch, rest) \<Rightarrow>
               if deleteBranch = ''y'' then
                 (Returned True,
                  snd (execSync git (''git branch -d '' @ replace_first branchName ''origin/'' []) s1),
                  rest)
               else (Returned True, s1, rest)))"

definition mergeAikidoBranch :: "'r git \<Rightarrow> string \<Rightarrow> string list \<Rightarrow> 'r session \<Rightarrow> 'r merge_state" where
  "mergeAikidoBranch git branchName answers s =
     (case before_merge git branchName answers s of
        Inl r \<Rightarrow> r
      | Inr (s1, rest) \<Rightarrow> merge_and_cleanup git branchName rest s1)"

section \<open>Notions used in the statements\<close>

text \<open>
  Two worlds with the same manifest files, the same writes made and the same commands
  run; only \<open>testLog\<close> may differ.
\<close>

definition untouched :: "world \<Rightarrow> world \<Rightarrow> bool" where
  "untouched w w' = (files w' = files w \<and> writes w' = writes w \<and> commands w' = commands w)"

text \<open>What one vulnerability takes off the score: its severity weight, and 10 when stale.\<close>

definition vuln_deduction :: "security_config \<Rightarrow> int \<Rightarrow> vuln_data \<Rightarrow> int" where
  "vuln_deduction cfg now vuln =
     severity_deduction (a_severity (analyzeVulnerability cfg now (vd_id vuln) vuln))
     + (if a_isStale (analyzeVulnerability cfg now (vd_id vuln) vuln) then 10 else 0)"

text \<open>
  The list updateDependencies hands to applyUpdates in auto mode:
  \<open>updates.filter(u => u.type === 'security')\<close>.
\<close>

definition auto_applied ::
  "security_config \<Rightarrow> int \<Rightarrow> (string \<times> vuln_data) list \<Rightarrow> (string \<times> outdated_info) list \<Rightarrow> update list" where
  "auto_applied cfg now vulns outdated =
     filter (\<lambda>u. u_type u = Security) (build_updates cfg now Auto vulns outdated)"

section \<open>Concrete inputs for the closed theorems\<close>

text \<open>
  A run without \<open>--dry-run\<close> in which every write and every command succeeds, and a
  \<open>client\<close> package whose manifest pins lodash and allows axios from 1.0.0.
\<close>

definition demo_env :: env where
  "demo_env = \<lparr> isDryRun = False, isAutoUpdate = False, isForceUpdate = False,
                 write_throws = (\<lambda>path. False), run = (\<lambda>cmd cwd. ExitZero []) \<rparr>"

definition demo_manifest :: manifest where
  "demo_manifest =
     \<lparr> dependencies = Some [(''lodash'', ''4.17.21''), (''axios'', ''^1.0.0'')],
       devDependencies = Some [(''jest'', ''^29.0.0'')],
       other = [(''name'', JStr ''client'')] \<rparr>"

definition demo_world :: world where
  "demo_world =
     \<lparr> files = (\<lambda>path. if path = ''client/package.json'' then Some demo_manifest else None),
       writes = [], commands = [], testLog = [] \<rparr>"

definition demo_vuln :: "string \<Rightarrow> string \<Rightarrow> string \<Rightarrow> vuln_data" where
  "demo_vuln name sev fixed =
     \<lparr> vd_id = None, vd_severity = Some sev, vd_created = NoCreated, vd_title = None,
       vd_module_name = Some name, vd_vulnerable_versions = None,
       vd_patched_versions = Some fixed, vd_url = None, vd_via = None \<rparr>"

text \<open>The security entry that fixes a package by moving it to a version.\<close>

definition demo_fix :: "string \<Rightarrow> string \<Rightarrow> update" where
  "demo_fix name fixed =
     \<lparr> u_type = Security, u_package = name, u_severity = Some ''critical'',
       u_current = Some ''unknown'', u_patched = Some fixed, u_wanted = None, u_latest = None,
       u_reason = ''critical vulnerability: Unknown vulnerability'' \<rparr>"

text \<open>A vulnerability published 400 days before \<open>now\<close>, with the given severity.\<close>

definition demo_old_vuln :: "int \<Rightarrow> string \<Rightarrow> vuln_data" where
  "demo_old_vuln now sev =
     \<lparr> vd_id = None, vd_severity = Some sev, vd_created = Created (now - 400 * 86400000),
       vd_title = None, vd_module_name = Some ''lodash'', vd_vulnerable_versions = None,
       vd_patched_versions = None, vd_url = None, vd_via = None \<rparr>"

text \<open>
  A line of \<open>git branch -r\<close> for the branch Dependabot opens to update the package
  \<open>@aikidosec/firewall\<close>.
\<close>

definition demo_remote_listing :: string where
  "demo_remote_listing =
     ''  origin/main'' @ [CHR 0x0A]
     @ ''  origin/dependabot/npm_and_yarn/aikidosec/firewall-1.4.0'' @ [CHR 0x0A]"

text \<open>
  A configuration that excludes lodash from automatic updates, and a scan that found a
  critical vulnerability in lodash, a high one in axios and a moderate one in jest, with
  jest also outdated.
\<close>

definition demo_cfg :: security_config where
  "demo_cfg = SECURITY_CONFIG\<lparr> excludePackages := [''lodash''] \<rparr>"

definition demo_vulns :: "(string \<times> vuln_data) list" where
  "demo_vulns =
     [(''lodash'', demo_vuln ''lodash'' ''critical'' ''4.17.22''),
      (''axios'', demo_vuln ''axios'' ''high'' ''1.6.0''),
      (''jest'', demo_vuln ''jest'' ''moderate'' ''29.7.0'')]"

definition demo_outdated :: "(string \<times> outdated_info) list" where
  "demo_outdated =
     [(''jest'', \<lparr> o_current = Some ''29.0.0'', o_wanted = Some ''29.7.0'', o_latest = Some ''30.0.0'' \<rparr>)]"

text \<open>
  A repository that is either clean or in the middle of a conflicted merge. Merging
  \<open>aikido/fix-lodash\<close> conflicts; \<open>git merge --abort\<close> would restore the clean state.
\<close>

datatype demo_repo = Clean | Conflicted

definition demo_git :: "demo_repo git" where
  "demo_git cmd r =
     (if cmd = ''git branch --show-current'' then (Some (''main'' @ [CHR 0x0A]), r)
      else if cmd = ''git merge aikido/fix-lodash --no-ff'' then (None, Conflicted)
      else if cmd = ''git merge --abort'' then (Some [], Clean)
      else (Some [], r))"

section \<open>Properties of the security score\<close>

lemma score_vuln_deduction: "score_vuln cfg now vuln s = s - vuln_deduction cfg now vuln"
  by (simp add: score_vuln_def vuln_deduction_def Let_def)

lemma vuln_deduction_nonneg: "0 \<le> vuln_deduction cfg now vuln"
  by (simp add: vuln_deduction_def severity_deduction_def)

lemma fold_score_vuln:
  "fold (score_vuln cfg now) vs s = s - sum_list (map (vuln_deduction cfg now) vs)"
  by (induction vs arbitrary: s) (simp_all add: score_vuln_deduction)

lemma sum_deductions_nonneg: "0 \<le> sum_list (map (vuln_deduction cfg now) vs)"
  by (induction vs) (simp_all add: vuln_deduction_nonneg)

lemma calculateSecurityScore_eq:
  "calculateSecurityScore cfg now vulns outdated =
     max 0 (100 - sum_list (map (vuln_deduction cfg now) (map snd vulns))
              - min (int (length outdated) * 2) 30)"
  by (simp add: calculateSecurityScore_def fold_score_vuln Let_def)

text \<open>
  C2. For every vulnerability set and every outdated-package map, calculateSecurityScore
  returns an integer between 0 and 100, and with no vulnerability and no outdated package
  it returns exactly 100.
\<close>

theorem calculateSecurityScore_range:
  "0 \<le> calculateSecurityScore cfg now vulns outdated
   \<and> calculateSecurityScore cfg now vulns outdated \<le> 100
   \<and> calculateSecurityScore cfg now [] [] = 100"
proof -
  have d: "0 \<le> sum_list (map (vuln_deduction cfg now) (map snd vulns))"
    by (rule sum_deductions_nonneg)
  have o: "0 \<le> min (int (length outdated) * 2) 30"
    by simp
  have "calculateSecurityScore cfg now vulns outdated \<le> 100"
    unfolding calculateSecurityScore_eq using d o by linarith
  moreover have "0 \<le> calculateSecurityScore cfg now vulns outdated"
    unfolding calculateSecurityScore_eq by simp
  moreover have "calculateSecurityScore cfg now [] [] = 100"
    by (simp add: calculateSecurityScore_eq)
  ultimately show ?thesis by simp
qed

text \<open>
  C9. For every severity, every vulnerability set and every outdated map, one more
  vulnerability (whatever its severity and wherever it is inserted among the others)
  never increases the result of calculateSecurityScore.
\<close>

theorem calculateSecurityScore_monotone:
  "calculateSecurityScore cfg now (vs1 @ (k, vuln) # vs2) outdated
     \<le> calculateSecurityScore cfg now (vs1 @ vs2) outdated"
proof -
  have "0 \<le> vuln_deduction cfg now vuln"
    by (rule vuln_deduction_nonneg)
  then show ?thesis
    unfolding calculateSecurityScore_eq by simp
qed

section \<open>Dry-run mode\<close>

lemma writePackageJson_dry:
  "isDryRun e \<Longrightarrow> writePackageJson e filePath content w
     = (True, w\<lparr> testLog := testLog w @ [''[DRY] Would update: '' @ filePath] \<rparr>)"
  by (simp add: writePackageJson_def)

lemma untouched_refl: "untouched w w"
  by (simp add: untouched_def)

lemma untouched_trans: "untouched w w1 \<Longrightarrow> untouched w1 w2 \<Longrightarrow> untouched w w2"
  by (simp add: untouched_def)

lemma applyUpdates_dry: "isDryRun e \<Longrightarrow> untouched w (snd (applyUpdates e dir updates w))"
  by (simp add: applyUpdates_def writePackageJson_dry untouched_def Let_def split: option.splits)

lemma interactiveUpdate_dry:
  "isDryRun e \<Longrightarrow> untouched w (fst (snd (interactiveUpdate e dir updates answers w)))"
  by (simp add: interactiveUpdate_def returned_def applyUpdates_dry untouched_refl
      split: option.splits prod.splits)

lemma updateDependencies_dry:
  "isDryRun e \<Longrightarrow>
     untouched w (fst (snd (updateDependencies e cfg now dir vulns outdated mode answers w)))"
  by (simp add: updateDependencies_def returned_def applyUpdates_dry interactiveUpdate_dry
      untouched_refl Let_def split: option.splits prod.splits)

lemma update_loop_dry:
  "isDryRun e \<Longrightarrow> untouched w (snd (update_loop e cfg now packages answers w))"
proof (induction packages arbitrary: answers w)
  case Nil
  show ?case by (simp add: untouched_refl)
next
  case (Cons pkg packages)
  obtain dir vulns outdated where pkg: "pkg = (dir, vulns, outdated)"
    by (cases pkg) auto
  show ?case
  proof (cases "vulns \<noteq> [] \<or> outdated \<noteq> []")
    case False
    then show ?thesis using Cons pkg by simp
  next
    case True
    obtain r w1 rest where u:
      "updateDependencies e cfg now dir vulns outdated (main_mode e) answers w = (r, w1, rest)"
      by (cases "updateDependencies e cfg now dir vulns outdated (main_mode e) answers w") auto
    have w1: "untouched w w1"
      using updateDependencies_dry [OF Cons.prems, of w cfg now dir vulns outdated "main_mode e" answers] u
      by simp
    show ?thesis
    proof (cases r)
      case None
      then show ?thesis using True pkg u w1 by simp
    next
      case (Some b)
      have "untouched w1 (snd (update_loop e cfg now packages rest w1))"
        by (rule Cons.IH [OF Cons.prems])
      then show ?thesis using True pkg u Some w1 by (simp add: untouched_trans [OF w1])
    qed
  qed
qed

text \<open>
  C7. With \<open>--dry-run\<close>, whatever the input: writePackageJson only records the intended
  write in the log and reports success, and applyUpdates, updateDependencies (in every
  mode, whatever the operator answers) and the update loop of main leave every manifest
  file as it was, write no manifest and run no command, so \<open>npm install\<close> is never invoked.
\<close>

theorem dry_run_frame:
  assumes "isDryRun e"
  shows "writePackageJson e filePath content w
           = (True, w\<lparr> testLog := testLog w @ [''[DRY] Would update: '' @ filePath] \<rparr>)
       \<and> untouched w (snd (applyUpdates e dir updates w))
       \<and> untouched w (fst (snd (updateDependencies e cfg now dir vulns outdated mode answers w)))
       \<and> untouched w (snd (update_loop e cfg now packages answers w))"
  using assms
  by (simp add: writePackageJson_dry applyUpdates_dry updateDependencies_dry update_loop_dry)

text \<open>
  The theorem at a dry run of the forced update of the \<open>client\<close> package, where a critical
  fix for lodash is pending: the world afterwards has no write and no command.
\<close>

theorem dry_run_frame_witness:
  "isDryRun (demo_env\<lparr> isDryRun := True \<rparr>)
   \<and> writes (fst (snd (updateDependencies (demo_env\<lparr> isDryRun := True \<rparr>) SECURITY_CONFIG 0 ''client''
         [(''lodash'', demo_vuln ''lodash'' ''critical'' ''4.17.22'')] [] Force [] demo_world))) = []
   \<and> commands (fst (snd (updateDependencies (demo_env\<lparr> isDryRun := True \<rparr>) SECURITY_CONFIG 0 ''client''
         [(''lodash'', demo_vuln ''lodash'' ''critical'' ''4.17.22'')] [] Force [] demo_world))) = []"
  using dry_run_frame [of "demo_env\<lparr> isDryRun := True \<rparr>" "''client/package.json''" demo_manifest
      demo_world "''client''" "[]" SECURITY_CONFIG 0
      "[(''lodash'', demo_vuln ''lodash'' ''critical'' ''4.17.22'')]" "[]" Force "[]" "[]"]
  by (simp add: untouched_def demo_world_def)

section \<open>The auto-update policy\<close>

lemma main_mode_auto: "main_mode e = Auto \<longleftrightarrow> isAutoUpdate e"
  by (simp add: main_mode_def)

lemma security_update_auto:
  "u \<in> set (security_update cfg now Auto entry) \<Longrightarrow>
     u_type u = Security
     \<and> (\<exists>sev. u_severity u = Some sev \<and> sev \<in> set (autoUpdateLevels cfg))
     \<and> u_package u \<notin> set (excludePackages cfg)"
  by (auto simp: security_update_def analyzeVulnerability_def Let_def split: if_splits)

lemma outdated_update_auto: "outdated_update Auto entry = []"
  by (simp add: outdated_update_def)

lemma build_updates_auto:
  "build_updates cfg now Auto vulns outdated = concat (map (security_update cfg now Auto) vulns)"
  by (simp add: build_updates_def outdated_update_auto)

lemma filter_security_auto:
  "filter (\<lambda>u. u_type u = Security) (concat (map (security_update cfg now Auto) vulns))
     = concat (map (security_update cfg now Auto) vulns)"
proof -
  have "\<forall>u \<in> set (concat (map (security_update cfg now Auto) vulns)). u_type u = Security"
    by (auto dest: security_update_auto)
  then show ?thesis by simp
qed

lemma auto_applied_eq:
  "auto_applied cfg now vulns outdated = concat (map (security_update cfg now Auto) vulns)"
  by (simp add: auto_applied_def build_updates_auto filter_security_auto)

lemma auto_applied_props:
  "u \<in> set (auto_applied cfg now vulns outdated) \<Longrightarrow>
     u_type u = Security
     \<and> (\<exists>sev. u_severity u = Some sev \<and> sev \<in> set (autoUpdateLevels cfg))
     \<and> u_package u \<notin> set (excludePackages cfg)"
  unfolding auto_applied_eq by (auto dest: security_update_auto)

lemma js_set_other: "p \<noteq> k \<Longrightarrow> map_of (js_set d k v) p = map_of d p"
  by (simp add: js_set_def update_conv')

lemma assign_both_other:
  "p \<noteq> pkg \<Longrightarrow> constraints (fst (assign_both m pkg v)) p = constraints m p"
  by (auto simp: assign_both_def assign_if_listed_def constraints_def js_set_other Let_def
      split: option.splits)

lemma apply_update_other:
  "u_package u \<noteq> p \<Longrightarrow> constraints (fst (apply_update u st)) p = constraints (fst st) p"
  by (simp add: apply_update_def Let_def assign_both_other)

lemma fold_apply_update_other:
  "\<forall>u \<in> set us. u_package u \<noteq> p \<Longrightarrow>
     constraints (fst (fold apply_update us st)) p = constraints (fst st) p"
  by (induction us arbitrary: st) (simp_all add: apply_update_other)

lemma applyUpdates_other:
  assumes "\<forall>u \<in> set us. u_package u \<noteq> p"
  shows "map_option (\<lambda>m. constraints m p) (files (snd (applyUpdates e dir us w)) path)
       = map_option (\<lambda>m. constraints m p) (files w path)"
  using fold_apply_update_other [OF assms]
  by (auto simp: applyUpdates_def writePackageJson_def getPackageJson_def Let_def
      split: option.splits)

lemma updateDependencies_auto:
  "updateDependencies e cfg now dir vulns outdated Auto answers w =
     (case getPackageJson w (package_json_path dir) of
        None \<Rightarrow> (Some False, w, answers)
      | Some pkg \<Rightarrow>
          if auto_applied cfg now vulns outdated = [] then (Some True, w, answers)
          else returned (applyUpdates e dir (auto_applied cfg now vulns outdated) w) answers)"
  by (simp add: updateDependencies_def auto_applied_eq build_updates_auto filter_security_auto
      Let_def split: option.splits)

text \<open>
  C5. In auto mode updateDependencies hands applyUpdates exactly the list \<open>auto_applied\<close>.
  Every entry of it is a security entry whose severity is on the allow-list of the
  configuration and whose package is not on its exclusion list; the outdated map
  contributes nothing to it; and for every excluded package, the constraints of every
  manifest file are the same after the call as before. The allow-list of SECURITY_CONFIG
  is critical and high.
\<close>

theorem auto_policy:
  "updateDependencies e cfg now dir vulns outdated Auto answers w =
     (case getPackageJson w (package_json_path dir) of
        None \<Rightarrow> (Some False, w, answers)
      | Some pkg \<Rightarrow>
          if auto_applied cfg now vulns outdated = [] then (Some True, w, answers)
          else returned (applyUpdates e dir (auto_applied cfg now vulns outdated) w) answers)
   \<and> (\<forall>u \<in> set (auto_applied cfg now vulns outdated).
         u_type u = Security
         \<and> (\<exists>sev. u_severity u = Some sev \<and> sev \<in> set (autoUpdateLevels cfg))
         \<and> u_package u \<notin> set (excludePackages cfg))
   \<and> auto_applied cfg now vulns outdated = auto_applied cfg now vulns []
   \<and> (\<forall>p \<in> set (excludePackages cfg). \<forall>path.
         map_option (\<lambda>m. constraints m p)
           (files (fst (snd (updateDependencies e cfg now dir vulns outdated Auto answers w))) path)
         = map_option (\<lambda>m. constraints m p) (files w path))
   \<and> set (autoUpdateLevels SECURITY_CONFIG) = {''critical'', ''high''}"
proof -
  have excl: "map_option (\<lambda>m. constraints m p)
           (files (fst (snd (updateDependencies e cfg now dir vulns outdated Auto answers w))) path)
         = map_option (\<lambda>m. constraints m p) (files w path)"
    if p: "p \<in> set (excludePackages cfg)" for p path
  proof -
    have "\<forall>u \<in> set (auto_applied cfg now vulns outdated). u_package u \<noteq> p"
      using p auto_applied_props by blast
    from applyUpdates_other [OF this] show ?thesis
      by (simp add: updateDependencies_auto returned_def split: option.splits)
  qed
  have "\<forall>u \<in> set (auto_applied cfg now vulns outdated).
         u_type u = Security
         \<and> (\<exists>sev. u_severity u = Some sev \<and> sev \<in> set (autoUpdateLevels cfg))
         \<and> u_package u \<notin> set (excludePackages cfg)"
    using auto_applied_props by blast
  moreover have "auto_applied cfg now vulns outdated = auto_applied cfg now vulns []"
    by (simp add: auto_applied_eq)
  moreover have "set (autoUpdateLevels SECURITY_CONFIG) = {''critical'', ''high''}"
    by (simp add: SECURITY_CONFIG_def)
  ultimately show ?thesis
    using updateDependencies_auto [of e cfg now dir vulns outdated answers w] excl by blast
qed

text \<open>
  The theorem for the \<open>client\<close> package with lodash excluded: of the three
  vulnerabilities only the high one in axios is applied, and lodash keeps its constraint.
\<close>

theorem auto_policy_witness:
  "map (\<lambda>u. (u_type u, u_package u, u_severity u)) (auto_applied demo_cfg 0 demo_vulns demo_outdated)
     = [(Security, ''axios'', Some ''high'')]
   \<and> ''lodash'' \<in> set (excludePackages demo_cfg)
   \<and> map_option (\<lambda>m. constraints m ''lodash'')
        (files (fst (snd (updateDependencies demo_env demo_cfg 0 ''client'' demo_vulns demo_outdated
           Auto [] demo_world))) ''client/package.json'')
      = Some (Some ''4.17.21'', None)"
proof -
  note inst = auto_policy [of demo_env demo_cfg 0 "''client''" demo_vulns demo_outdated "[]" demo_world]
  have ex: "''lodash'' \<in> set (excludePackages demo_cfg)"
    by (simp add: demo_cfg_def)
  have "map_option (\<lambda>m. constraints m ''lodash'')
        (files (fst (snd (updateDependencies demo_env demo_cfg 0 ''client'' demo_vulns demo_outdated
           Auto [] demo_world))) ''client/package.json'')
      = map_option (\<lambda>m. constraints m ''lodash'') (files demo_world ''client/package.json'')"
    using inst ex by blast
  moreover have "map_option (\<lambda>m. constraints m ''lodash'') (files demo_world ''client/package.json'')
      = Some (Some ''4.17.21'', None)"
    by (simp add: demo_world_def demo_manifest_def constraints_def)
  moreover have "map (\<lambda>u. (u_type u, u_package u, u_severity u))
       (auto_applied demo_cfg 0 demo_vulns demo_outdated) = [(Security, ''axios'', Some ''high'')]"
    by (simp add: auto_applied_def build_updates_def security_update_def outdated_update_def
        analyzeVulnerability_def demo_vulns_def demo_vuln_def demo_cfg_def SECURITY_CONFIG_def
        or_default_def truthy_def Let_def)
  ultimately show ?thesis using ex by simp
qed

section \<open>Severities outside the table\<close>

lemma unknown_severity_default:
  assumes "or_default (vd_severity v) ''unknown'' \<notin> {''critical'', ''high'', ''moderate'', ''low''}"
      and "or_default (vd_severity v) ''unknown'' \<notin> set object_prototype_names"
  shows "a_maxAge (analyzeVulnerability SECURITY_CONFIG now i v) = Own 365
       \<and> \<not> a_shouldAutoUpdate (analyzeVulnerability SECURITY_CONFIG now i v)
       \<and> severity_deduction (a_severity (analyzeVulnerability SECURITY_CONFIG now i v)) = 0"
  using assms
  by (simp add: analyzeVulnerability_def SECURITY_CONFIG_def maxAge_for_def js_get_def
      severity_deduction_def Let_def)

text \<open>
  C10. A vulnerability whose severity is none of critical, high, moderate and low is
  meant to get the ceiling of 365 days. For a severity that is the name of a property of
  \<open>Object.prototype\<close> the lookup \<open>SECURITY_CONFIG.maxAge[severity]\<close> finds the inherited
  property, so the fallback to \<open>maxAge.low\<close> is not taken: a vulnerability of severity
  \<open>constructor\<close> published 400 days ago has no numeric ceiling, is not stale and leaves
  the score at 100, where the same vulnerability of severity \<open>info\<close> has the ceiling 365
  and costs the 10 points of a stale vulnerability.
\<close>

theorem inherited_severity_name:
  "a_ageInDays (analyzeVulnerability SECURITY_CONFIG now vulnId (demo_old_vuln now ''constructor'')) = Some 400
   \<and> a_maxAge (analyzeVulnerability SECURITY_CONFIG now vulnId (demo_old_vuln now ''constructor'')) = Inherited
   \<and> \<not> a_isStale (analyzeVulnerability SECURITY_CONFIG now vulnId (demo_old_vuln now ''constructor''))
   \<and> calculateSecurityScore SECURITY_CONFIG now [(''lodash'', demo_old_vuln now ''constructor'')] [] = 100
   \<and> a_maxAge (analyzeVulnerability SECURITY_CONFIG now vulnId (demo_old_vuln now ''info'')) = Own 365
   \<and> calculateSecurityScore SECURITY_CONFIG now [(''lodash'', demo_old_vuln now ''info'')] [] = 90"
  by (simp add: analyzeVulnerability_def demo_old_vuln_def SECURITY_CONFIG_def maxAge_for_def
      js_get_def object_prototype_names_def js_gt_def ageInDays_of_def or_default_def truthy_def
      calculateSecurityScore_def score_vuln_def severity_deduction_def Let_def)

section \<open>Scanning\<close>

lemma scanVulnerabilities_exit_zero:
  "parse out = Some (JObj kvs) \<Longrightarrow>
   scanVulnerabilities parse packageDir (ExitZero out)
   = (\<lparr> vulnerabilities = json_or (map_of kvs ''vulnerabilities'') (JObj []),
        summary = json_or (map_of kvs ''metadata'') JNull,
        auditLevel = Some (json_or (map_of kvs ''auditReportVersion'') (JNum 1)) \<rparr>, [])"
  by (simp add: scanVulnerabilities_def execCommand_def member_def)

lemma scanVulnerabilities_launch_failed:
  "scanVulnerabilities parse packageDir (LaunchFailed message)
     = (empty_scan, [''npm audit failed in '' @ packageDir @ '': '' @ message])"
  by (simp add: scanVulnerabilities_def execCommand_def show_null_def)

lemma scanVulnerabilities_unparsable:
  "parse out = None \<Longrightarrow> scanVulnerabilities parse packageDir (ExitZero out)
     = (empty_scan, [''Failed to parse audit results for '' @ packageDir])"
  by (simp add: scanVulnerabilities_def execCommand_def)

text \<open>
  C1. When the audit command exits with a status other than 0, scanVulnerabilities
  returns the empty vulnerability set with the warning that the audit failed, whatever
  the command printed and whatever \<open>JSON.parse\<close> would make of it: execCommand has dropped
  the output, and scanVulnerabilities returns before parsing.
\<close>

theorem scanVulnerabilities_nonzero_exit:
  "scanVulnerabilities parse packageDir (ExitNonZero status out message)
   = (empty_scan, [''npm audit failed in '' @ packageDir @ '': '' @ message])"
  by (simp add: scanVulnerabilities_def execCommand_def show_null_def)

section \<open>Entries whose target is the current constraint\<close>

text \<open>
  C4, as the code has it. applyUpdates does not compare the target of an entry with the
  current constraint. A security entry whose patched version equals the constraint that
  \<open>dependencies\<close> holds for its package is applied like any other: \<open>dependencies\<close> keeps its
  contents, and outside a dry run, when the write succeeds, the manifest is written and
  \<open>npm install\<close> is run.
\<close>

theorem equal_target_still_applied:
  assumes "u_type u = Security" and "u_patched u = Some t" and "t \<noteq> []" and "t \<noteq> ''none''"
      and "getPackageJson w (package_json_path dir) = Some m"
      and "dependencies m = Some d" and "map_of d (u_package u) = Some t"
      and "\<not> isDryRun e" and "\<not> write_throws e (package_json_path dir)"
  shows "dependencies (fst (apply_update u (m, False))) = dependencies m
       \<and> writes (snd (applyUpdates e dir [u] w))
           = writes w @ [(package_json_path dir, fst (apply_update u (m, False)))]
       \<and> commands (snd (applyUpdates e dir [u] w)) = commands w @ [(''npm install'', dir)]"
proof -
  have g: "truthy_prop (js_get d (u_package u))"
    using assms by (simp add: js_get_def truthy_prop_def)
  have s: "js_set d (u_package u) t = d"
    using assms by (simp add: js_set_def update_triv)
  have a: "apply_update u (m, False)
         = (m\<lparr> devDependencies := fst (assign_if_listed (devDependencies m) (u_package u) t) \<rparr>, True)"
    using assms g s
    by (simp add: apply_update_def assign_both_def assign_if_listed_def truthy_def Let_def)
  show ?thesis
    using assms
    by (simp add: a applyUpdates_def writePackageJson_def Let_def)
qed

text \<open>The theorem for a fix of axios to \<open>^1.0.0\<close>, the constraint the manifest already has.\<close>

theorem equal_target_still_applied_witness:
  "getPackageJson demo_world (package_json_path ''client'') = Some demo_manifest
   \<and> dependencies demo_manifest = Some [(''lodash'', ''4.17.21''), (''axios'', ''^1.0.0'')]
   \<and> writes (snd (applyUpdates demo_env ''client'' [demo_fix ''axios'' ''^1.0.0''] demo_world))
       = [(''client/package.json'', demo_manifest)]
   \<and> commands (snd (applyUpdates demo_env ''client'' [demo_fix ''axios'' ''^1.0.0''] demo_world))
       = [(''npm install'', ''client'')]"
proof -
  have p: "package_json_path ''client'' = ''client/package.json''"
    by code_simp
  have f: "getPackageJson demo_world (package_json_path ''client'') = Some demo_manifest"
    by (simp add: getPackageJson_def p demo_world_def)
  have d: "dependencies demo_manifest = Some [(''lodash'', ''4.17.21''), (''axios'', ''^1.0.0'')]"
    by (simp add: demo_manifest_def)
  have a: "fst (apply_update (demo_fix ''axios'' ''^1.0.0'') (demo_manifest, False)) = demo_manifest"
    by code_simp
  have "writes (snd (applyUpdates demo_env ''client'' [demo_fix ''axios'' ''^1.0.0''] demo_world))
           = writes demo_world @ [(package_json_path ''client'',
                fst (apply_update (demo_fix ''axios'' ''^1.0.0'') (demo_manifest, False)))]
       \<and> commands (snd (applyUpdates demo_env ''client'' [demo_fix ''axios'' ''^1.0.0''] demo_world))
           = commands demo_world @ [(''npm install'', ''client'')]"
    using equal_target_still_applied [of "demo_fix ''axios'' ''^1.0.0''" "''^1.0.0''" demo_world
        "''client''" demo_manifest "[(''lodash'', ''4.17.21''), (''axios'', ''^1.0.0'')]" demo_env] f d
    by (simp add: demo_fix_def demo_env_def p)
  then show ?thesis
    using f d a by (simp add: demo_world_def p)
qed

text \<open>
  The claim as stated fails: the manifest pins lodash to 4.17.21, the critical
  vulnerability found in lodash is patched in 4.17.21, and the auto update still counts
  the entry as a change (\<open>hasChanges\<close> is true after the loop), writes the manifest and
  runs \<open>npm install\<close>.
\<close>

theorem noop_entry_counterexample:
  "fst (constraints demo_manifest ''lodash'') = Some ''4.17.21''
   \<and> snd (fold apply_update
        (auto_applied SECURITY_CONFIG 0 [(''lodash'', demo_vuln ''lodash'' ''critical'' ''4.17.21'')] [])
        (demo_manifest, False))
   \<and> map (\<lambda>u. (u_package u, u_patched u))
        (auto_applied SECURITY_CONFIG 0 [(''lodash'', demo_vuln ''lodash'' ''critical'' ''4.17.21'')] [])
       = [(''lodash'', Some ''4.17.21'')]
   \<and> writes (fst (snd (updateDependencies demo_env SECURITY_CONFIG 0 ''client''
        [(''lodash'', demo_vuln ''lodash'' ''critical'' ''4.17.21'')] [] Auto [] demo_world)))
       = [(''client/package.json'', demo_manifest)]
   \<and> commands (fst (snd (updateDependencies demo_env SECURITY_CONFIG 0 ''client''
        [(''lodash'', demo_vuln ''lodash'' ''critical'' ''4.17.21'')] [] Auto [] demo_world)))
       = [(''npm install'', ''client'')]"
  by code_simp

section \<open>Outdated entries\<close>

lemma outdated_wanted_unused:
  "u_type u = Outdated \<Longrightarrow> apply_update (u\<lparr> u_wanted := x \<rparr>) st = apply_update u st"
  by (simp add: apply_update_def Let_def)

text \<open>
  C8. A forced update of the \<open>client\<close> package, where axios is outdated with wanted
  version 1.2.0 and latest version 2.0.0: the constraint written for axios is \<open>^2.0.0\<close>,
  not the wanted version.
\<close>

theorem outdated_update_takes_latest:
  "map_option (\<lambda>m. constraints m ''axios'')
     (files (fst (snd (updateDependencies demo_env SECURITY_CONFIG 0 ''client'' []
        [(''axios'', \<lparr> o_current = Some ''1.0.0'', o_wanted = Some ''1.2.0'', o_latest = Some ''2.0.0'' \<rparr>)]
        Force [] demo_world))) ''client/package.json'')
   = Some (Some ''^2.0.0'', None)"
  by code_simp

section \<open>Branch classification\<close>

lemma branch_type_cases:
  "branch_type b = ''aikido'' \<or> branch_type b = ''dependabot'' \<or> branch_type b = ''security''"
  by (simp add: branch_type_def)

lemma branch_type_examples:
  "branch_type ''aikido/fix-lodash'' = ''aikido''"
  "branch_type ''dependabot/npm_and_yarn/axios-1.2.3'' = ''dependabot''"
  "branch_type ''security/manual-patch'' = ''security''"
  by code_simp+

text \<open>
  C6. The remote branch \<open>origin/dependabot/npm_and_yarn/aikidosec/firewall-1.4.0\<close> contains
  both markers of listSecurityBranches. Its groups are three independent filters, so the
  branch is listed as an AIKIDO branch and as a Dependabot branch, while
  loadSecurityBranches, which tests the markers in order, gives it the one type
  \<open>dependabot\<close>.
\<close>

theorem branch_in_two_groups:
  "aikidoBranches (listSecurityBranches (Some demo_remote_listing) (Some (''* main'' @ [CHR 0x0A])))
     = [''origin/dependabot/npm_and_yarn/aikidosec/firewall-1.4.0'']
   \<and> dependabotBranches (listSecurityBranches (Some demo_remote_listing) (Some (''* main'' @ [CHR 0x0A])))
     = [''origin/dependabot/npm_and_yarn/aikidosec/firewall-1.4.0'']
   \<and> map sb_type (loadSecurityBranches (Some demo_remote_listing)) = [''dependabot'']"
  by code_simp

section \<open>A merge that fails\<close>

text \<open>
  C3, as the code has it. When mergeAikidoBranch reaches the merge and \<open>git merge --no-ff\<close>
  fails, the function returns false and the merge command is the last command it runs:
  the repository is left as the failed merge left it, for the operator to resolve.
\<close>

theorem failed_merge_left_in_place:
  assumes "before_merge git branchName answers s = Inr (s1, rest)"
      and "git (merge_command branchName) (repo s1) = (None, r)"
  shows "mergeAikidoBranch git branchName answers s
         = (Returned False, \<lparr> repo = r, issued = issued s1 @ [merge_command branchName] \<rparr>, rest)"
  using assms
  by (simp add: mergeAikidoBranch_def merge_and_cleanup_def execSync_def)

text \<open>The theorem for the conflicting branch, confirmed by the operator with \<open>Y\<close>.\<close>

theorem failed_merge_left_in_place_witness:
  "before_merge demo_git ''aikido/fix-lodash'' ['' Y ''] \<lparr> repo = Clean, issued = [] \<rparr>
     = Inr (\<lparr> repo = Clean,
              issued = [''git branch --show-current'',
                        ''git log --oneline aikido/fix-lodash ^main | head -5'',
                        ''git diff --name-only main...aikido/fix-lodash'',
                        ''git diff --stat main...aikido/fix-lodash''] \<rparr>, [])
   \<and> demo_git (merge_command ''aikido/fix-lodash'') Clean = (None, Conflicted)
   \<and> mergeAikidoBranch demo_git ''aikido/fix-lodash'' ['' Y ''] \<lparr> repo = Clean, issued = [] \<rparr>
     = (Returned False,
        \<lparr> repo = Conflicted,
          issued = [''git branch --show-current'',
                    ''git log --oneline aikido/fix-lodash ^main | head -5'',
                    ''git diff --name-only main...aikido/fix-lodash'',
                    ''git diff --stat main...aikido/fix-lodash'',
                    ''git merge aikido/fix-lodash --no-ff''] \<rparr>, [])"
proof -
  have b: "before_merge demo_git ''aikido/fix-lodash'' ['' Y ''] \<lparr> repo = Clean, issued = [] \<rparr>
     = Inr (\<lparr> repo = Clean,
              issued = [''git branch --show-current'',
                        ''git log --oneline aikido/fix-lodash ^main | head -5'',
                        ''git diff --name-only main...aikido/fix-lodash'',
                        ''git diff --stat main...aikido/fix-lodash''] \<rparr>, [])"
    by code_simp
  have m: "demo_git (merge_command ''aikido/fix-lodash'')
             (repo \<lparr> repo = Clean,
              issued = [''git branch --show-current'',
                        ''git log --oneline aikido/fix-lodash ^main | head -5'',
                        ''git diff --name-only main...aikido/fix-lodash'',
                        ''git diff --stat main...aikido/fix-lodash''] \<rparr>) = (None, Conflicted)"
    by code_simp
  show ?thesis
    using failed_merge_left_in_place [OF b m] b m by (simp add: merge_command_def)
qed

text \<open>
  The claim as stated fails: merging the conflicting branch from a clean repository
  returns false and leaves the repository conflicted; \<open>git merge --abort\<close>, which would
  have restored it, is not among the commands run.
\<close>

theorem merge_conflict_counterexample:
  "fst (demo_git (merge_command ''aikido/fix-lodash'') Clean) = None
   \<and> fst (mergeAikidoBranch demo_git ''aikido/fix-lodash'' [''y''] \<lparr> repo = Clean, issued = [] \<rparr>)
       = Returned False
   \<and> repo (fst (snd (mergeAikidoBranch demo_git ''aikido/fix-lodash'' [''y'']
        \<lparr> repo = Clean, issued = [] \<rparr>))) = Conflicted
   \<and> ''git merge --abort'' \<notin> set (issued (fst (snd (mergeAikidoBranch demo_git ''aikido/fix-lodash''
        [''y''] \<lparr> repo = Clean, issued = [] \<rparr>))))
   \<and> demo_git ''git merge --abort'' Conflicted = (Some [], Clean)"
  by code_simp

end
